theory Spec2Isabelle
  imports Main "HOL-Library.Word" "HOL-Library.Sublist"
begin

section \<open>JavaScript values used by the contact-form handler\<close>

text \<open>
  The repository is one Cloudflare Pages function, \<^verbatim>\<open>functions/submit.js\<close>, exporting
  \<^verbatim>\<open>onRequestPost({ request, env })\<close>. A JavaScript string is a sequence of 16-bit
  code units, so strings are lists of \<open>16 word\<close>. The ASCII literals of the source are
  written with \<open>js\<close>, which maps each character of an Isabelle string to the code unit
  of the same number.
\<close>

type_synonym jstring = "16 word list"

definition js :: "string \<Rightarrow> jstring" where
  "js s = map (\<lambda>c. of_nat (of_char c)) s"

text \<open>The line feed, U+000A: what \<^verbatim>\<open>\n\<close> denotes in a regular expression and in a
  template literal that spans lines.\<close>

definition LF :: "16 word" where
  "LF = 0x0A"

text \<open>
  What a \<^verbatim>\<open>throw\<close> or a rejected promise carries. \<open>TypeError\<close> is raised by the
  engine when a property that is not a function is called; \<open>InvalidCharacterError\<close>
  by \<^verbatim>\<open>btoa\<close>; \<open>Rejected\<close> is whatever a platform promise
  (\<^verbatim>\<open>request.formData()\<close>, \<^verbatim>\<open>fetch\<close>, \<^verbatim>\<open>response.text()\<close>) rejected with.
\<close>

datatype js_error = TypeError | InvalidCharacterError | Rejected jstring

text \<open>An entry of a \<^verbatim>\<open>FormData\<close> is a string or a \<^verbatim>\<open>File\<close> (here: its file name).\<close>

datatype form_value = Text jstring | File jstring

text \<open>The request, as far as the handler reads it: what \<^verbatim>\<open>await request.formData()\<close>
  yields, the entries in body order, or the error it rejects with.\<close>

record request =
  formData :: "js_error + (jstring \<times> form_value) list"

text \<open>The environment variables the header comment of the source requires to be set.\<close>

record env =
  FORWARDEMAIL_USERNAME :: jstring
  FORWARDEMAIL_PASSWORD :: jstring
  TO_EMAIL :: jstring

text \<open>The object literal \<^verbatim>\<open>apiPayload\<close> (\<open>from'\<close> is its key \<^verbatim>\<open>from\<close>).\<close>

record payload =
  to :: "jstring list"
  from' :: jstring
  replyTo :: jstring
  subject :: jstring
  html :: jstring

text \<open>The arguments of \<^verbatim>\<open>new Request(url, { method, headers, body })\<close>.\<close>

record Request =
  url :: jstring
  http_method :: jstring
  request_headers :: "(jstring \<times> jstring) list"
  request_body :: jstring

text \<open>What the handler reads of the response \<^verbatim>\<open>fetch\<close> resolves with: \<^verbatim>\<open>status\<close>,
  \<^verbatim>\<open>statusText\<close> and the outcome of \<^verbatim>\<open>await apiResponse.text()\<close>.\<close>

record FetchResponse =
  upstream_status :: nat
  statusText :: jstring
  body_text :: "js_error + jstring"

text \<open>\<^verbatim>\<open>Response.ok\<close>: the status is in the range 200 to 299.\<close>

definition ok :: "FetchResponse \<Rightarrow> bool" where
  "ok r = (200 \<le> upstream_status r \<and> upstream_status r \<le> 299)"

text \<open>The arguments of \<^verbatim>\<open>new Response(body, { status, headers })\<close> the handler returns:
  \<open>headers\<close> are the headers the handler passes to the constructor. The header list of the
  response the constructor builds from them is \<open>header_list\<close> below.\<close>

record Response =
  response_body :: jstring
  status :: nat
  headers :: "(jstring \<times> jstring) list"

text \<open>What an invocation does besides returning: outbound calls and \<^verbatim>\<open>console.error\<close>
  lines, in order.\<close>

datatype console_arg = Str jstring | Err js_error

datatype effect = Fetch Request | ConsoleError "console_arg list"

section \<open>Library functions of the platform\<close>

subsection \<open>\<^verbatim>\<open>Object.fromEntries\<close> and property reads\<close>

text \<open>\<^verbatim>\<open>Object.fromEntries\<close> defines one property per entry, in order, a later entry
  overwriting an earlier one of the same key. None of the four names the handler reads is a
  property of \<^verbatim>\<open>Object.prototype\<close>, so reading \<^verbatim>\<open>body.name\<close> is a lookup in this map
  and a missing key reads as \<^verbatim>\<open>undefined\<close> (\<open>None\<close>).\<close>

definition fromEntries :: "(jstring \<times> form_value) list \<Rightarrow> (jstring \<rightharpoonup> form_value)" where
  "fromEntries es = foldl (\<lambda>obj (k, v). obj(k \<mapsto> v)) Map.empty es"

text \<open>\<^verbatim>\<open>!x\<close> is false exactly for a truthy \<open>x\<close>: \<^verbatim>\<open>undefined\<close> and the empty string are
  falsy, a non-empty string and any object are truthy.\<close>

fun truthy :: "form_value option \<Rightarrow> bool" where
  "truthy None = False"
| "truthy (Some (Text s)) = (s \<noteq> [])"
| "truthy (Some (File f)) = True"

text \<open>The string a template literal interpolates for \<^verbatim>\<open>${x}\<close>.\<close>

fun ToString :: "form_value option \<Rightarrow> jstring" where
  "ToString None = js ''undefined''"
| "ToString (Some (Text s)) = s"
| "ToString (Some (File f)) = js ''[object File]''"

subsection \<open>\<^verbatim>\<open>String.prototype.replace(/\n/g, '<br>')\<close>\<close>

fun replace_newlines :: "jstring \<Rightarrow> jstring" where
  "replace_newlines [] = []"
| "replace_newlines (c # cs) =
     (if c = LF then js ''<br>'' @ replace_newlines cs else c # replace_newlines cs)"

text \<open>\<^verbatim>\<open>x.replace(/\n/g, '<br>')\<close>: only a string has the method; on \<^verbatim>\<open>undefined\<close> and
  on a \<^verbatim>\<open>File\<close> the call raises a \<^verbatim>\<open>TypeError\<close>.\<close>

fun call_replace :: "form_value option \<Rightarrow> js_error + jstring" where
  "call_replace (Some (Text s)) = Inr (replace_newlines s)"
| "call_replace _ = Inl TypeError"

subsection \<open>\<^verbatim>\<open>btoa\<close>\<close>

definition b64 :: "nat \<Rightarrow> 16 word" where
  "b64 i = js ''ABCDEFGHIJKLMNOPQRSTUVWXYZabcdefghijklmnopqrstuvwxyz0123456789+/'' ! i"

fun base64 :: "nat list \<Rightarrow> jstring" where
  "base64 (a # b # c # rest) =
     [b64 (a div 4), b64 ((a mod 4) * 16 + b div 16), b64 ((b mod 16) * 4 + c div 64),
      b64 (c mod 64)] @ base64 rest"
| "base64 [a, b] = [b64 (a div 4), b64 ((a mod 4) * 16 + b div 16), b64 ((b mod 16) * 4), 0x3D]"
| "base64 [a] = [b64 (a div 4), b64 ((a mod 4) * 16), 0x3D, 0x3D]"
| "base64 [] = []"

text \<open>\<^verbatim>\<open>btoa\<close> reads each code unit as one byte and raises when one is above 0xFF.\<close>

definition btoa :: "jstring \<Rightarrow> js_error + jstring" where
  "btoa s = (if list_ex (\<lambda>c. 0xFF < c) s then Inl InvalidCharacterError
             else Inr (base64 (map unat s)))"

subsection \<open>\<^verbatim>\<open>JSON.stringify\<close>\<close>

datatype json =
  JString jstring | JBool bool | JArray "json list" | JObject "(jstring \<times> json) list"

definition hexDigit :: "nat \<Rightarrow> 16 word" where
  "hexDigit n = (if n < 10 then of_nat (48 + n) else of_nat (87 + n))"

definition UnicodeEscape :: "16 word \<Rightarrow> jstring" where
  "UnicodeEscape c =
     [0x5C, 0x75, hexDigit (unat c div 4096), hexDigit (unat c div 256 mod 16),
      hexDigit (unat c div 16 mod 16), hexDigit (unat c mod 16)]"

definition isLeadingSurrogate :: "16 word \<Rightarrow> bool" where
  "isLeadingSurrogate c = (0xD800 \<le> c \<and> c \<le> 0xDBFF)"

definition isTrailingSurrogate :: "16 word \<Rightarrow> bool" where
  "isTrailingSurrogate c = (0xDC00 \<le> c \<and> c \<le> 0xDFFF)"

text \<open>One code point that is not a surrogate pair: the two-character escapes, \<^verbatim>\<open>\uXXXX\<close>
  for the other control characters and for a lone surrogate, the code unit itself otherwise.\<close>

definition escapeUnit :: "16 word \<Rightarrow> jstring" where
  "escapeUnit c =
     (if c = 0x08 then [0x5C, 0x62]
      else if c = 0x09 then [0x5C, 0x74]
      else if c = 0x0A then [0x5C, 0x6E]
      else if c = 0x0C then [0x5C, 0x66]
      else if c = 0x0D then [0x5C, 0x72]
      else if c = 0x22 then [0x5C, 0x22]
      else if c = 0x5C then [0x5C, 0x5C]
      else if c < 0x20 \<or> isLeadingSurrogate c \<or> isTrailingSurrogate c then UnicodeEscape c
      else [c])"

fun quoteUnits :: "jstring \<Rightarrow> jstring" where
  "quoteUnits [] = []"
| "quoteUnits [c] = escapeUnit c"
| "quoteUnits (c # d # ds) =
     (if isLeadingSurrogate c \<and> isTrailingSurrogate d then c # d # quoteUnits ds
      else escapeUnit c @ quoteUnits (d # ds))"

definition QuoteJSONString :: "jstring \<Rightarrow> jstring" where
  "QuoteJSONString s = [0x22] @ quoteUnits s @ [0x22]"

fun intercalate :: "'a list \<Rightarrow> 'a list list \<Rightarrow> 'a list" where
  "intercalate s [] = []"
| "intercalate s [x] = x"
| "intercalate s (x # y # ys) = x @ s @ intercalate s (y # ys)"

fun stringify :: "json \<Rightarrow> jstring" where
  "stringify (JString s) = QuoteJSONString s"
| "stringify (JBool b) = (if b then js ''true'' else js ''false'')"
| "stringify (JArray xs) = js ''['' @ intercalate (js '','') (map stringify xs) @ js '']''"
| "stringify (JObject kvs) =
     js ''{'' @
     intercalate (js '','') (map (\<lambda>(k, v). QuoteJSONString k @ js '':'' @ stringify v) kvs) @
     js ''}''"

text \<open>\<^verbatim>\<open>Number.prototype.toString\<close> on a status code: decimal digits.\<close>

fun dec :: "nat \<Rightarrow> jstring" where
  "dec n = (if n < 10 then [of_nat (48 + n)] else dec (n div 10) @ [of_nat (48 + n mod 10)])"

declare dec.simps [simp del]

subsection \<open>\<^verbatim>\<open>new Response\<close>\<close>

text \<open>Header names are compared without regard to the case of ASCII letters.\<close>

definition lowercase :: "16 word \<Rightarrow> 16 word" where
  "lowercase c = (if 0x41 \<le> c \<and> c \<le> 0x5A then c + 0x20 else c)"

definition same_header_name :: "jstring \<Rightarrow> jstring \<Rightarrow> bool" where
  "same_header_name a b = (map lowercase a = map lowercase b)"

text \<open>The header list of the response that \<^verbatim>\<open>new Response(body, { status, headers })\<close>
  constructs (Fetch standard, the constructor's initialisation): the headers passed, and,
  since the body is a string, \<^verbatim>\<open>Content-Type: text/plain;charset=UTF-8\<close> appended when the
  headers passed contain no \<^verbatim>\<open>Content-Type\<close>. The statuses the handler passes (200, 400,
  500) are in range and allow a body, and the header values it passes have no surrounding
  white space, so the constructor neither raises nor trims.\<close>

definition header_list :: "Response \<Rightarrow> (jstring \<times> jstring) list" where
  "header_list response =
     (if list_ex (\<lambda>(n, v). same_header_name n (js ''Content-Type'')) (headers response)
      then headers response
      else headers response @ [(js ''Content-Type'', js ''text/plain;charset=UTF-8'')])"

text \<open>\<^verbatim>\<open>response.headers.get(name)\<close>: the values of the headers of that name, joined by a
  comma and a space; \<^verbatim>\<open>null\<close> (\<open>None\<close>) when there is none.\<close>

definition get_header :: "(jstring \<times> jstring) list \<Rightarrow> jstring \<Rightarrow> jstring option" where
  "get_header hs name =
     (case filter (\<lambda>(n, v). same_header_name n name) hs of
        [] \<Rightarrow> None
      | matching \<Rightarrow> Some (intercalate (js '', '') (map snd matching)))"

section \<open>The handler\<close>

text \<open>The object literal \<^verbatim>\<open>apiPayload\<close> of lines 27 to 41. Its properties are evaluated
  in order; the only expression that can raise is \<^verbatim>\<open>body.message.replace(...)\<close>.\<close>

definition apiPayload :: "env \<Rightarrow> (jstring \<rightharpoonup> form_value) \<Rightarrow> js_error + payload" where
  "apiPayload env body =
     (case call_replace (body (js ''message'')) of
        Inl e \<Rightarrow> Inl e
      | Inr replaced \<Rightarrow> Inr \<lparr>
          to = [TO_EMAIL env],
          from' = [0x22] @ ToString (body (js ''name'')) @ [0x22] @ js '' <'' @
                  FORWARDEMAIL_USERNAME env @ js ''>'',
          replyTo = [0x22] @ ToString (body (js ''name'')) @ [0x22] @ js '' <'' @
                    ToString (body (js ''email'')) @ js ''>'',
          subject = js ''New Contact Form Submission: '' @ ToString (body (js ''subject'')),
          html =
            [LF] @ js ''        <p>You have received a new message from your website contact form.</p>'' @
            [LF] @ js ''        <hr>'' @
            [LF] @ js ''        <p><b>Name:</b> '' @ ToString (body (js ''name'')) @ js ''</p>'' @
            [LF] @ js ''        <p><b>Email:</b> '' @ ToString (body (js ''email'')) @ js ''</p>'' @
            [LF] @ js ''        <hr>'' @
            [LF] @ js ''        <p><b>Message:</b></p>'' @
            [LF] @ js ''        <p>'' @ replaced @ js ''</p>'' @
            [LF] @ js ''      ''
        \<rparr>)"

text \<open>The value \<^verbatim>\<open>JSON.stringify(apiPayload)\<close> serialises, keys in the order of the literal.\<close>

definition payload_json :: "payload \<Rightarrow> json" where
  "payload_json p =
     JObject [(js ''to'', JArray (map JString (to p))),
              (js ''from'', JString (from' p)),
              (js ''replyTo'', JString (replyTo p)),
              (js ''subject'', JString (subject p)),
              (js ''html'', JString (html p))]"

text \<open>Lines 44 to 54: the Basic credential and the outbound request.\<close>

definition apiRequest :: "env \<Rightarrow> payload \<Rightarrow> js_error + Request" where
  "apiRequest env p =
     (case btoa (FORWARDEMAIL_USERNAME env @ js '':'' @ FORWARDEMAIL_PASSWORD env) of
        Inl e \<Rightarrow> Inl e
      | Inr basicAuth \<Rightarrow> Inr \<lparr>
          url = js ''https://api.forwardemail.net/v1/emails'',
          http_method = js ''POST'',
          request_headers = [(js ''Authorization'', js ''Basic '' @ basicAuth),
                             (js ''Content-Type'', js ''application/json'')],
          request_body = stringify (payload_json p)
        \<rparr>)"

text \<open>The body of the \<^verbatim>\<open>try\<close> block, lines 15 to 72: the effects so far, and either the
  error that was raised or the response that was returned. \<open>fetch\<close> is the behaviour of the
  platform's \<^verbatim>\<open>fetch\<close> during this invocation.\<close>

definition try_block ::
  "(Request \<Rightarrow> js_error + FetchResponse) \<Rightarrow> request \<Rightarrow> env \<Rightarrow> effect list \<times> (js_error + Response)"
where
  "try_block fetch request env =
     (case formData request of
        Inl e \<Rightarrow> ([], Inl e)
      | Inr entries \<Rightarrow>
          let body = fromEntries entries in
          if \<not> truthy (body (js ''name'')) \<or> \<not> truthy (body (js ''email'')) \<or>
             \<not> truthy (body (js ''subject'')) \<or> \<not> truthy (body (js ''message''))
          then ([], Inr \<lparr>
                  response_body = stringify (JObject [(js ''success'', JBool False),
                                             (js ''message'', JString (js ''Missing required fields.''))]),
                  status = 400,
                  headers = [(js ''Content-Type'', js ''application/json'')]\<rparr>)
          else
            (case apiPayload env body of
               Inl e \<Rightarrow> ([], Inl e)
             | Inr p \<Rightarrow>
                 (case apiRequest env p of
                    Inl e \<Rightarrow> ([], Inl e)
                  | Inr req \<Rightarrow>
                      (case fetch req of
                         Inl e \<Rightarrow> ([Fetch req], Inl e)
                       | Inr apiResponse \<Rightarrow>
                           if \<not> ok apiResponse then
                             (case body_text apiResponse of
                                Inl e \<Rightarrow>
                                  ([Fetch req,
                                    ConsoleError [Str (js ''forwardemail.net API Error: '' @
                                      dec (upstream_status apiResponse) @ js '' '' @
                                      statusText apiResponse)]],
                                   Inl e)
                              | Inr errorBody \<Rightarrow>
                                  ([Fetch req,
                                    ConsoleError [Str (js ''forwardemail.net API Error: '' @
                                      dec (upstream_status apiResponse) @ js '' '' @
                                      statusText apiResponse)],
                                    ConsoleError [Str (js ''forwardemail.net Response Body: '' @
                                      errorBody)]],
                                   Inr \<lparr>
                                     response_body = stringify (JObject [(js ''success'', JBool False),
                                              (js ''message'', JString (js ''Failed to send email.''))]),
                                     status = 500,
                                     headers = [(js ''Content-Type'', js ''application/json'')]\<rparr>))
                           else
                             ([Fetch req], Inr \<lparr>response_body = js ''OK'', status = 200, headers = []\<rparr>)))))"

text \<open>\<^verbatim>\<open>onRequestPost\<close>: the \<^verbatim>\<open>try\<close> block and its \<^verbatim>\<open>catch\<close>, lines 74 to 80.\<close>

definition onRequestPost ::
  "(Request \<Rightarrow> js_error + FetchResponse) \<Rightarrow> request \<Rightarrow> env \<Rightarrow> effect list \<times> Response"
where
  "onRequestPost fetch request env =
     (case try_block fetch request env of
        (effects, Inr response) \<Rightarrow> (effects, response)
      | (effects, Inl error) \<Rightarrow>
          (effects @ [ConsoleError [Str (js ''Worker Error:''), Err error]],
           \<lparr>response_body = stringify (JObject [(js ''success'', JBool False),
                      (js ''message'', JString (js ''An unexpected error occurred.''))]),
            status = 500,
            headers = [(js ''Content-Type'', js ''application/json'')]\<rparr>))"

declare stringify.simps [simp del]

section \<open>Example invocations\<close>

text \<open>The submission of the specification's scenario (\<open>message\<close> is \<^verbatim>\<open>Hi\nThere\<close>), the
  same submission without its \<open>email\<close> field, without its \<open>name\<close> field, and with markup as
  message; a configuration; a request whose body does not parse; and behaviours of the
  delivery API: it accepts, it answers 401 or 503, it answers 502 with a body that cannot be
  read, it cannot be reached.\<close>

definition jane :: "(jstring \<times> form_value) list" where
  "jane = [(js ''name'', Text (js ''Jane'')), (js ''email'', Text (js ''jane@x.com'')),
           (js ''subject'', Text (js ''Hello'')),
           (js ''message'', Text (js ''Hi'' @ [LF] @ js ''There''))]"

definition jane_without_email :: "(jstring \<times> form_value) list" where
  "jane_without_email = [(js ''name'', Text (js ''Jane'')), (js ''subject'', Text (js ''Hello'')),
           (js ''message'', Text (js ''Hi'' @ [LF] @ js ''There''))]"

definition site_env :: env where
  "site_env = \<lparr>FORWARDEMAIL_USERNAME = js ''me@site.org'', FORWARDEMAIL_PASSWORD = js ''pw'',
                TO_EMAIL = js ''inbox@site.org''\<rparr>"

definition accepts :: "Request \<Rightarrow> js_error + FetchResponse" where
  "accepts req = Inr \<lparr>upstream_status = 200, statusText = js ''OK'', body_text = Inr []\<rparr>"

definition unauthorized :: "Request \<Rightarrow> js_error + FetchResponse" where
  "unauthorized req =
     Inr \<lparr>upstream_status = 401, statusText = js ''Unauthorized'', body_text = Inr (js ''denied'')\<rparr>"

definition unreachable :: "Request \<Rightarrow> js_error + FetchResponse" where
  "unreachable req = Inl (Rejected (js ''network error''))"

definition truncated :: "Request \<Rightarrow> js_error + FetchResponse" where
  "truncated req =
     Inr \<lparr>upstream_status = 502, statusText = js ''Bad Gateway'',
          body_text = Inl (Rejected (js ''connection reset''))\<rparr>"

definition unparseable :: request where
  "unparseable = \<lparr>formData = Inl (Rejected (js ''body is not form data''))\<rparr>"

definition maintenance :: "Request \<Rightarrow> js_error + FetchResponse" where
  "maintenance req =
     Inr \<lparr>upstream_status = 503, statusText = js ''Service Unavailable'',
          body_text = Inr (js ''down for maintenance'')\<rparr>"

definition markup :: "(jstring \<times> form_value) list" where
  "markup = [(js ''name'', Text (js ''Jane'')), (js ''email'', Text (js ''jane@x.com'')),
             (js ''subject'', Text (js ''Hello'')), (js ''message'', Text (js ''one<br>two''))]"

definition jane_rest :: "(jstring \<times> form_value) list" where
  "jane_rest = [(js ''email'', Text (js ''jane@x.com'')), (js ''subject'', Text (js ''Hello'')),
                (js ''message'', Text (js ''Hi'' @ [LF] @ js ''There''))]"

section \<open>Vocabulary of the properties\<close>

text \<open>A valid submission: each of the four fields is present as a non-empty string; the
  four strings are named.\<close>

definition valid_submission ::
  "(jstring \<rightharpoonup> form_value) \<Rightarrow> jstring \<Rightarrow> jstring \<Rightarrow> jstring \<Rightarrow> jstring \<Rightarrow> bool"
where
  "valid_submission body name email subj message =
     (body (js ''name'') = Some (Text name) \<and> name \<noteq> [] \<and>
      body (js ''email'') = Some (Text email) \<and> email \<noteq> [] \<and>
      body (js ''subject'') = Some (Text subj) \<and> subj \<noteq> [] \<and>
      body (js ''message'') = Some (Text message) \<and> message \<noteq> [])"

text \<open>The number of positions of a list at which a given marker starts.\<close>

fun occurrences :: "'a list \<Rightarrow> 'a list \<Rightarrow> nat" where
  "occurrences m [] = 0"
| "occurrences m (x # xs) = (if prefix m (x # xs) then 1 else 0) + occurrences m xs"

text \<open>The invocation reaches line 64, the delivery-failure response: the body parsed, the
  test of line 19 was false, the payload and the request were built, \<^verbatim>\<open>fetch\<close> resolved with
  a response that is not \<^verbatim>\<open>ok\<close>, and its body could be read.\<close>

definition delivery_failure_path ::
  "(Request \<Rightarrow> js_error + FetchResponse) \<Rightarrow> request \<Rightarrow> env \<Rightarrow> bool"
where
  "delivery_failure_path fetch request env =
     (case formData request of
        Inl e \<Rightarrow> False
      | Inr entries \<Rightarrow>
          truthy (fromEntries entries (js ''name'')) \<and> truthy (fromEntries entries (js ''email'')) \<and>
          truthy (fromEntries entries (js ''subject'')) \<and>
          truthy (fromEntries entries (js ''message'')) \<and>
          (case apiPayload env (fromEntries entries) of
             Inl e \<Rightarrow> False
           | Inr p \<Rightarrow>
               (case apiRequest env p of
                  Inl e \<Rightarrow> False
                | Inr req \<Rightarrow>
                    (case fetch req of
                       Inl e \<Rightarrow> False
                     | Inr apiResponse \<Rightarrow>
                         (case body_text apiResponse of
                            Inl e \<Rightarrow> False
                          | Inr errorBody \<Rightarrow> \<not> ok apiResponse)))))"

section \<open>Facts about the library functions\<close>

subsection \<open>The JSON bodies of the failure responses\<close>

lemmas js_eval =
  js_def QuoteJSONString_def escapeUnit_def isLeadingSurrogate_def isTrailingSurrogate_def

lemma missing_body:
  \<open>stringify (JObject [(js ''success'', JBool False),
                       (js ''message'', JString (js ''Missing required fields.''))]) =
   js ''{"success":false,"message":"Missing required fields."}''\<close>
  by (simp add: js_eval stringify.simps)

lemma failed_body:
  \<open>stringify (JObject [(js ''success'', JBool False),
                       (js ''message'', JString (js ''Failed to send email.''))]) =
   js ''{"success":false,"message":"Failed to send email."}''\<close>
  by (simp add: js_eval stringify.simps)

lemma unexpected_body:
  \<open>stringify (JObject [(js ''success'', JBool False),
                       (js ''message'', JString (js ''An unexpected error occurred.''))]) =
   js ''{"success":false,"message":"An unexpected error occurred."}''\<close>
  by (simp add: js_eval stringify.simps)

lemmas bodies = missing_body failed_body unexpected_body

subsection \<open>Truthiness\<close>

lemma falsy_cases: "\<not> truthy v \<longleftrightarrow> v = None \<or> v = Some (Text [])"
  by (cases v rule: truthy.cases) simp_all

lemma valid_truthy:
  assumes "valid_submission body name email subj message"
  shows "truthy (body (js ''name''))" "truthy (body (js ''email''))"
    "truthy (body (js ''subject''))" "truthy (body (js ''message''))"
  using assms by (simp_all add: valid_submission_def)

subsection \<open>\<open>fromEntries\<close>\<close>

lemma fromEntries_snoc: "fromEntries (es @ [(k, v)]) = (fromEntries es)(k \<mapsto> v)"
  by (simp add: fromEntries_def)

lemma fromEntries_map_of: "fromEntries es = map_of (rev es)"
proof (induction es rule: rev_induct)
  case Nil
  show ?case by (simp add: fromEntries_def)
next
  case (snoc e es)
  obtain k v where e: "e = (k, v)" by (cases e)
  show ?case
    using snoc by (simp add: e fromEntries_snoc)
qed

lemma fromEntries_last:
  assumes "k \<notin> fst ` set es'"
  shows "fromEntries (es @ (k, v) # es') k = Some v"
proof -
  have "map_of (rev es') k = None"
    using assms by (simp add: map_of_eq_None_iff)
  then show ?thesis
    by (simp add: fromEntries_map_of map_add_def)
qed

lemma fromEntries_drop_earlier:
  "fromEntries (es @ (k, v) # es') = fromEntries (filter (\<lambda>e. fst e \<noteq> k) es @ (k, v) # es')"
proof -
  have "map_of (rev es) k' = map_of (rev (filter (\<lambda>e. fst e \<noteq> k) es)) k'" if "k' \<noteq> k" for k'
  proof (induction es rule: rev_induct)
    case Nil
    show ?case by simp
  next
    case (snoc e es)
    then show ?case using that by (cases e) auto
  qed
  then have "(map_of (rev es))(k \<mapsto> v) = (map_of (rev (filter (\<lambda>e. fst e \<noteq> k) es)))(k \<mapsto> v)"
    by (auto simp: fun_eq_iff)
  then show ?thesis
    by (simp add: fromEntries_map_of map_add_def fun_eq_iff split: option.splits)
qed

subsection \<open>Replacing newlines\<close>

lemma replace_newlines_append:
  "replace_newlines (xs @ ys) = replace_newlines xs @ replace_newlines ys"
  by (induction xs) simp_all

lemma replace_newlines_id: "LF \<notin> set xs \<Longrightarrow> replace_newlines xs = xs"
  by (induction xs) auto

lemma no_newline_left: "LF \<notin> set (replace_newlines xs)"
  by (induction xs) (auto simp: js_def LF_def)

lemma replace_newlines_sublist:
  assumes "sublist chunk message" and "LF \<notin> set chunk"
  shows "sublist chunk (replace_newlines message)"
proof -
  from assms(1) obtain ps ss where "message = ps @ chunk @ ss"
    by (auto simp: sublist_def)
  then show ?thesis
    using assms(2) by (simp add: replace_newlines_append replace_newlines_id)
qed

subsection \<open>Counting the marker \<^verbatim>\<open><br>\<close>\<close>

text \<open>The character \<^verbatim>\<open><\<close> (0x3C) occurs in the marker at its first position only, so no
  occurrence of the marker straddles a point that is followed by \<^verbatim>\<open><\<close>, and replacing
  newlines neither destroys an occurrence nor creates one besides the inserted markers.\<close>

lemma prefix_before_lt:
  "0x3C \<notin> set q \<Longrightarrow> prefix q (xs @ 0x3C # ys) = prefix q xs"
proof (induction q arbitrary: xs)
  case Nil
  show ?case by simp
next
  case (Cons a q)
  then show ?case by (cases xs) auto
qed

lemma occurrences_append_lt:
  "occurrences (js ''<br>'') (xs @ 0x3C # ys) =
   occurrences (js ''<br>'') xs + occurrences (js ''<br>'') (0x3C # ys)"
proof (induction xs)
  case Nil
  show ?case by simp
next
  case (Cons x xs)
  have "prefix (js ''<br>'') (x # xs @ 0x3C # ys) = prefix (js ''<br>'') (x # xs)"
    using prefix_before_lt [of "[0x62, 0x72, 0x3E]" xs ys] by (simp add: js_def)
  with Cons show ?case by simp
qed

lemma prefix_replace_newlines:
  "LF \<notin> set q \<Longrightarrow> 0x3C \<notin> set q \<Longrightarrow> prefix q (replace_newlines cs) = prefix q cs"
proof (induction q arbitrary: cs)
  case Nil
  show ?case by simp
next
  case (Cons a q)
  then show ?case by (cases cs) (auto simp: js_def)
qed

lemma occurrences_replace_newlines:
  "occurrences (js ''<br>'') (replace_newlines m) =
   count_list m LF + occurrences (js ''<br>'') m"
proof (induction m)
  case Nil
  show ?case by simp
next
  case (Cons c cs)
  show ?case
  proof (cases "c = LF")
    case True
    then show ?thesis using Cons by (simp add: js_def LF_def)
  next
    case False
    have "prefix (js ''<br>'') (c # replace_newlines cs) = prefix (js ''<br>'') (c # cs)"
      using prefix_replace_newlines [of "[0x62, 0x72, 0x3E]" cs] by (simp add: js_def LF_def)
    with False Cons show ?thesis by simp
  qed
qed

section \<open>Facts about the handler\<close>

subsection \<open>The payload and the request\<close>

lemma valid_payload_fields:
  assumes "valid_submission body name email subj message"
  shows \<open>\<exists>p. apiPayload env body = Inr p \<and>
    to p = [TO_EMAIL env] \<and>
    from' p = js ''"'' @ name @ js ''" <'' @ FORWARDEMAIL_USERNAME env @ js ''>'' \<and>
    replyTo p = js ''"'' @ name @ js ''" <'' @ email @ js ''>'' \<and>
    subject p = js ''New Contact Form Submission: '' @ subj \<and>
    html p =
      ([LF] @ js ''        <p>You have received a new message from your website contact form.</p>'' @
       [LF] @ js ''        <hr>'' @
       [LF] @ js ''        <p><b>Name:</b> '') @ name @
      (js ''</p>'' @
       [LF] @ js ''        <p><b>Email:</b> '') @ email @
      (js ''</p>'' @
       [LF] @ js ''        <hr>'' @
       [LF] @ js ''        <p><b>Message:</b></p>'' @
       [LF] @ js ''        <p>'') @ replace_newlines message @
      (js ''</p>'' @
       [LF] @ js ''      '')\<close>
  using assms by (simp add: valid_submission_def apiPayload_def js_def)

lemma valid_payload:
  assumes "valid_submission body name email subj message"
  shows "\<exists>p. apiPayload env body = Inr p"
  using valid_payload_fields [OF assms] by blast

lemma html_occurrences:
  assumes "valid_submission body name email subj message"
    and "apiPayload env body = Inr p"
  shows "occurrences (js ''<br>'') (html p) =
    count_list message LF + occurrences (js ''<br>'') name + occurrences (js ''<br>'') email +
    occurrences (js ''<br>'') message"
proof -
  have "occurrences (js ''<br>'') (html p) =
    occurrences (js ''<br>'') name + occurrences (js ''<br>'') email +
    occurrences (js ''<br>'') (replace_newlines message)"
    using valid_payload_fields [OF assms(1), of env] assms(2)
      occurrences_append_lt [of name] occurrences_append_lt [of email]
      occurrences_append_lt [of "replace_newlines message"]
    by (simp add: js_def LF_def)
  then show ?thesis
    by (simp add: occurrences_replace_newlines)
qed

text \<open>The credential can be encoded, and the request built, when no code unit of the
  account name and password is above 0xFF.\<close>

lemma apiRequest_Latin1:
  assumes "\<not> list_ex (\<lambda>c. 0xFF < c) (FORWARDEMAIL_USERNAME env @ js '':'' @ FORWARDEMAIL_PASSWORD env)"
  shows "\<exists>req. apiRequest env p = Inr req"
  using assms by (simp add: apiRequest_def btoa_def)

lemma apiRequest_body:
  "apiRequest env p = Inr req \<Longrightarrow> request_body req = stringify (payload_json p)"
  by (auto simp: apiRequest_def split: sum.splits)

subsection \<open>The paths through the \<^verbatim>\<open>try\<close> block\<close>

text \<open>Past validation, with the payload and the request built, the block is decided by
  the outcome of the outbound call.\<close>

lemma try_block_sent:
  assumes "formData request = Inr entries"
    and "truthy (fromEntries entries (js ''name''))" "truthy (fromEntries entries (js ''email''))"
      "truthy (fromEntries entries (js ''subject''))" "truthy (fromEntries entries (js ''message''))"
    and "apiPayload env (fromEntries entries) = Inr p"
    and "apiRequest env p = Inr req"
  shows \<open>try_block fetch request env =
    (case fetch req of
       Inl e \<Rightarrow> ([Fetch req], Inl e)
     | Inr apiResponse \<Rightarrow>
         if ok apiResponse then
           ([Fetch req], Inr \<lparr>response_body = js ''OK'', status = 200, headers = []\<rparr>)
         else
           (case body_text apiResponse of
              Inl e \<Rightarrow>
                ([Fetch req,
                  ConsoleError [Str (js ''forwardemail.net API Error: '' @
                    dec (upstream_status apiResponse) @ js '' '' @ statusText apiResponse)]],
                 Inl e)
            | Inr errorBody \<Rightarrow>
                ([Fetch req,
                  ConsoleError [Str (js ''forwardemail.net API Error: '' @
                    dec (upstream_status apiResponse) @ js '' '' @ statusText apiResponse)],
                  ConsoleError [Str (js ''forwardemail.net Response Body: '' @ errorBody)]],
                 Inr \<lparr>response_body = js ''{"success":false,"message":"Failed to send email."}'',
                      status = 500,
                      headers = [(js ''Content-Type'', js ''application/json'')]\<rparr>)))\<close>
  using assms by (simp add: try_block_def bodies split: sum.splits)

lemma try_block_not_sent:
  assumes "formData request = Inr entries"
    and "truthy (fromEntries entries (js ''name''))" "truthy (fromEntries entries (js ''email''))"
      "truthy (fromEntries entries (js ''subject''))" "truthy (fromEntries entries (js ''message''))"
    and "apiPayload env (fromEntries entries) = Inr p"
    and "apiRequest env p = Inl e"
  shows "try_block fetch request env = ([], Inl e)"
  using assms by (simp add: try_block_def)

lemma caught:
  assumes "try_block fetch request env = (effects, Inl err)"
  shows \<open>onRequestPost fetch request env =
    (effects @ [ConsoleError [Str (js ''Worker Error:''), Err err]],
     \<lparr>response_body = js ''{"success":false,"message":"An unexpected error occurred."}'',
      status = 500, headers = [(js ''Content-Type'', js ''application/json'')]\<rparr>)\<close>
  using assms by (simp add: onRequestPost_def bodies)

lemma response_cases:
  \<open>snd (onRequestPost fetch request env) \<in>
    {\<lparr>response_body = js ''{"success":false,"message":"Missing required fields."}'',
      status = 400, headers = [(js ''Content-Type'', js ''application/json'')]\<rparr>,
     \<lparr>response_body = js ''{"success":false,"message":"Failed to send email."}'',
      status = 500, headers = [(js ''Content-Type'', js ''application/json'')]\<rparr>,
     \<lparr>response_body = js ''{"success":false,"message":"An unexpected error occurred."}'',
      status = 500, headers = [(js ''Content-Type'', js ''application/json'')]\<rparr>,
     \<lparr>response_body = js ''OK'', status = 200, headers = []\<rparr>}\<close>
  by (simp add: onRequestPost_def try_block_def bodies Let_def split: sum.splits prod.splits)

lemma fetched_request:
  assumes "formData request = Inr entries"
    and "truthy (fromEntries entries (js ''name''))" "truthy (fromEntries entries (js ''email''))"
      "truthy (fromEntries entries (js ''subject''))" "truthy (fromEntries entries (js ''message''))"
    and "apiPayload env (fromEntries entries) = Inr p"
    and "Fetch req \<in> set (fst (onRequestPost fetch request env))"
  shows "apiRequest env p = Inr req"
proof (cases "apiRequest env p")
  case (Inl e)
  then show ?thesis
    using try_block_not_sent [OF assms(1-6) Inl, of fetch] assms(7)
    by (simp add: onRequestPost_def)
next
  case (Inr r0)
  then show ?thesis
    using try_block_sent [OF assms(1-6) Inr, of fetch] assms(7)
    by (auto simp: onRequestPost_def split: sum.splits if_splits)
qed

lemma onRequestPost_fromEntries:
  assumes "fromEntries es1 = fromEntries es2"
  shows "onRequestPost fetch \<lparr>formData = Inr es1\<rparr> env = onRequestPost fetch \<lparr>formData = Inr es2\<rparr> env"
  using assms by (simp add: onRequestPost_def try_block_def)

subsection \<open>The delivery-failure path\<close>

lemma delivery_failure_pathE:
  assumes "delivery_failure_path fetch request env"
  obtains entries p req r errorBody where "formData request = Inr entries"
    and "truthy (fromEntries entries (js ''name''))" and "truthy (fromEntries entries (js ''email''))"
    and "truthy (fromEntries entries (js ''subject''))"
    and "truthy (fromEntries entries (js ''message''))"
    and "apiPayload env (fromEntries entries) = Inr p" and "apiRequest env p = Inr req"
    and "fetch req = Inr r" and "body_text r = Inr errorBody" and "\<not> ok r"
  using assms by (auto simp: delivery_failure_path_def split: sum.splits)

text \<open>On that path the handler logs the two diagnostic lines and returns the response of
  line 64.\<close>

lemma delivery_failure_run:
  assumes "delivery_failure_path fetch request env"
  shows \<open>\<exists>req (r::FetchResponse) errorBody. onRequestPost fetch request env =
     ([Fetch req,
       ConsoleError [Str (js ''forwardemail.net API Error: '' @ dec (upstream_status r) @
         js '' '' @ statusText r)],
       ConsoleError [Str (js ''forwardemail.net Response Body: '' @ errorBody)]],
      \<lparr>response_body = js ''{"success":false,"message":"Failed to send email."}'',
       status = 500, headers = [(js ''Content-Type'', js ''application/json'')]\<rparr>)\<close>
proof -
  from assms obtain entries p req r errorBody where h: "formData request = Inr entries"
    "truthy (fromEntries entries (js ''name''))" "truthy (fromEntries entries (js ''email''))"
    "truthy (fromEntries entries (js ''subject''))" "truthy (fromEntries entries (js ''message''))"
    "apiPayload env (fromEntries entries) = Inr p" "apiRequest env p = Inr req"
    and r: "fetch req = Inr r" "body_text r = Inr errorBody" "\<not> ok r"
    by (rule delivery_failure_pathE)
  have run: \<open>onRequestPost fetch request env =
     ([Fetch req,
       ConsoleError [Str (js ''forwardemail.net API Error: '' @ dec (upstream_status r) @
         js '' '' @ statusText r)],
       ConsoleError [Str (js ''forwardemail.net Response Body: '' @ errorBody)]],
      \<lparr>response_body = js ''{"success":false,"message":"Failed to send email."}'',
       status = 500, headers = [(js ''Content-Type'', js ''application/json'')]\<rparr>)\<close>
    using try_block_sent [OF h, of fetch] r by (simp add: onRequestPost_def)
  show ?thesis
    by (rule exI [of _ req], rule exI [of _ r], rule exI [of _ errorBody]) (rule run)
qed

text \<open>The path is the one on which line 62 logs the body of the upstream response.\<close>

lemma not_api_line:
  "js ''forwardemail.net Response Body: '' @ errorBody \<noteq> js ''forwardemail.net API Error: '' @ rest"
  by (simp add: js_def)

lemma delivery_failure_path_logged:
  "delivery_failure_path fetch request env \<longleftrightarrow>
   (\<exists>errorBody. ConsoleError [Str (js ''forwardemail.net Response Body: '' @ errorBody)]
       \<in> set (fst (onRequestPost fetch request env)))"
proof
  assume "delivery_failure_path fetch request env"
  from delivery_failure_run [OF this] show "\<exists>errorBody.
      ConsoleError [Str (js ''forwardemail.net Response Body: '' @ errorBody)]
       \<in> set (fst (onRequestPost fetch request env))"
    by auto
next
  assume "\<exists>errorBody. ConsoleError [Str (js ''forwardemail.net Response Body: '' @ errorBody)]
       \<in> set (fst (onRequestPost fetch request env))"
  then obtain errorBody where
    l: "ConsoleError [Str (js ''forwardemail.net Response Body: '' @ errorBody)]
       \<in> set (fst (onRequestPost fetch request env))"
    by blast
  show "delivery_failure_path fetch request env"
  proof (cases "formData request")
    case (Inl e)
    then show ?thesis using l by (simp add: onRequestPost_def try_block_def)
  next
    case (Inr entries)
    show ?thesis
    proof (cases "truthy (fromEntries entries (js ''name'')) \<and> truthy (fromEntries entries (js ''email'')) \<and>
        truthy (fromEntries entries (js ''subject'')) \<and> truthy (fromEntries entries (js ''message''))")
      case False
      then show ?thesis using l Inr by (auto simp: onRequestPost_def try_block_def)
    next
      case True
      note t = this
      show ?thesis
      proof (cases "apiPayload env (fromEntries entries)")
        case (Inl e)
        then show ?thesis using l Inr t by (simp add: onRequestPost_def try_block_def)
      next
        case p: (Inr p)
        show ?thesis
        proof (cases "apiRequest env p")
          case (Inl e)
          then show ?thesis using l Inr t p by (simp add: onRequestPost_def try_block_def)
        next
          case req: (Inr req)
          have tb: \<open>try_block fetch request env = (case fetch req of
       Inl e \<Rightarrow> ([Fetch req], Inl e)
     | Inr apiResponse \<Rightarrow>
         if ok apiResponse then
           ([Fetch req], Inr \<lparr>response_body = js ''OK'', status = 200, headers = []\<rparr>)
         else
           (case body_text apiResponse of
              Inl e \<Rightarrow>
                ([Fetch req,
                  ConsoleError [Str (js ''forwardemail.net API Error: '' @
                    dec (upstream_status apiResponse) @ js '' '' @ statusText apiResponse)]],
                 Inl e)
            | Inr errorBody \<Rightarrow>
                ([Fetch req,
                  ConsoleError [Str (js ''forwardemail.net API Error: '' @
                    dec (upstream_status apiResponse) @ js '' '' @ statusText apiResponse)],
                  ConsoleError [Str (js ''forwardemail.net Response Body: '' @ errorBody)]],
                 Inr \<lparr>response_body = js ''{"success":false,"message":"Failed to send email."}'',
                      status = 500,
                      headers = [(js ''Content-Type'', js ''application/json'')]\<rparr>)))\<close>
            using try_block_sent [OF Inr _ _ _ _ p req, of fetch] t by simp
          show ?thesis
            using l Inr t p req not_api_line
            by (auto simp: tb onRequestPost_def delivery_failure_path_def split: sum.splits if_splits)
        qed
      qed
    qed
  qed
qed

subsection \<open>The example invocations\<close>

lemma site_env_Latin1:
  "\<not> list_ex (\<lambda>c. 0xFF < c)
       (FORWARDEMAIL_USERNAME site_env @ js '':'' @ FORWARDEMAIL_PASSWORD site_env)"
  by (simp add: site_env_def js_def)

lemma jane_valid:
  "valid_submission (fromEntries jane) (js ''Jane'') (js ''jane@x.com'') (js ''Hello'')
     (js ''Hi'' @ [LF] @ js ''There'')"
  by (simp add: valid_submission_def fromEntries_def jane_def js_def)

lemma markup_valid:
  \<open>valid_submission (fromEntries markup) (js ''Jane'') (js ''jane@x.com'') (js ''Hello'')
     (js ''one<br>two'')\<close>
  by (simp add: valid_submission_def fromEntries_def markup_def js_def)

lemma jane_sent:
  obtains p req where "apiPayload site_env (fromEntries jane) = Inr p"
    and "apiRequest site_env p = Inr req"
    and \<open>try_block fetch \<lparr>formData = Inr jane\<rparr> site_env =
      (case fetch req of
       Inl e \<Rightarrow> ([Fetch req], Inl e)
     | Inr apiResponse \<Rightarrow>
         if ok apiResponse then
           ([Fetch req], Inr \<lparr>response_body = js ''OK'', status = 200, headers = []\<rparr>)
         else
           (case body_text apiResponse of
              Inl e \<Rightarrow>
                ([Fetch req,
                  ConsoleError [Str (js ''forwardemail.net API Error: '' @
                    dec (upstream_status apiResponse) @ js '' '' @ statusText apiResponse)]],
                 Inl e)
            | Inr errorBody \<Rightarrow>
                ([Fetch req,
                  ConsoleError [Str (js ''forwardemail.net API Error: '' @
                    dec (upstream_status apiResponse) @ js '' '' @ statusText apiResponse)],
                  ConsoleError [Str (js ''forwardemail.net Response Body: '' @ errorBody)]],
                 Inr \<lparr>response_body = js ''{"success":false,"message":"Failed to send email."}'',
                      status = 500,
                      headers = [(js ''Content-Type'', js ''application/json'')]\<rparr>)))\<close>
proof -
  obtain p where p: "apiPayload site_env (fromEntries jane) = Inr p"
    using valid_payload [OF jane_valid] by blast
  obtain req where req: "apiRequest site_env p = Inr req"
    using apiRequest_Latin1 [OF site_env_Latin1] by blast
  show thesis
    using that [OF p req]
      try_block_sent [where request = "\<lparr>formData = Inr jane\<rparr>" and fetch = fetch,
        OF _ valid_truthy [OF jane_valid] p req]
    by simp
qed

lemma jane_failure_path:
  assumes "fetch = unauthorized \<or> fetch = maintenance"
  shows "delivery_failure_path fetch \<lparr>formData = Inr jane\<rparr> site_env"
proof -
  obtain p where p: "apiPayload site_env (fromEntries jane) = Inr p"
    using valid_payload [OF jane_valid] by blast
  obtain req where req: "apiRequest site_env p = Inr req"
    using apiRequest_Latin1 [OF site_env_Latin1] by blast
  show ?thesis
    using assms valid_truthy [OF jane_valid] p req
    by (auto simp: delivery_failure_path_def unauthorized_def maintenance_def ok_def)
qed

section \<open>Validation\<close>

text \<open>
  Claim C1. When the body parses as form data and one of the fields \<open>name\<close>, \<open>email\<close>,
  \<open>subject\<close>, \<open>message\<close> is missing or is the empty string, the handler answers with
  status 400 and the JSON body \<^verbatim>\<open>{"success":false,"message":"Missing required fields."}\<close>,
  whatever the delivery API would do, and the invocation has no effect at all: no outbound
  call and no log line.
\<close>

theorem missing_field_400:
  assumes "formData request = Inr entries"
    and "k \<in> {js ''name'', js ''email'', js ''subject'', js ''message''}"
    and "fromEntries entries k = None \<or> fromEntries entries k = Some (Text [])"
  shows \<open>onRequestPost fetch request env =
    ([], \<lparr>response_body = js ''{"success":false,"message":"Missing required fields."}'',
           status = 400, headers = [(js ''Content-Type'', js ''application/json'')]\<rparr>)\<close>
proof -
  have "\<not> truthy (fromEntries entries k)"
    using assms(3) by (simp add: falsy_cases)
  with assms(2) have "\<not> truthy (fromEntries entries (js ''name'')) \<or>
      \<not> truthy (fromEntries entries (js ''email'')) \<or>
      \<not> truthy (fromEntries entries (js ''subject'')) \<or>
      \<not> truthy (fromEntries entries (js ''message''))"
    by auto
  then show ?thesis
    using assms(1) by (simp add: onRequestPost_def try_block_def bodies)
qed

theorem missing_field_400_witness:
  \<open>formData \<lparr>formData = Inr jane_without_email\<rparr> = Inr jane_without_email \<and>
   js ''email'' \<in> {js ''name'', js ''email'', js ''subject'', js ''message''} \<and>
   fromEntries jane_without_email (js ''email'') = None \<and>
   onRequestPost accepts \<lparr>formData = Inr jane_without_email\<rparr> site_env =
    ([], \<lparr>response_body = js ''{"success":false,"message":"Missing required fields."}'',
           status = 400, headers = [(js ''Content-Type'', js ''application/json'')]\<rparr>)\<close>
proof -
  have e: "fromEntries jane_without_email (js ''email'') = None"
    by (simp add: fromEntries_def jane_without_email_def js_def)
  show ?thesis
    using e missing_field_400 [of "\<lparr>formData = Inr jane_without_email\<rparr>" jane_without_email
        "js ''email''" accepts site_env]
    by simp
qed

section \<open>Delivery\<close>

text \<open>
  Claim C2, as amended. For a valid submission whose outbound request \<open>req\<close> is built:
  if the call completes with a status outside 200 to 299 and the body of the response can be
  read, the handler logs the status line and the body and answers with status 500 and
  \<^verbatim>\<open>{"success":false,"message":"Failed to send email."}\<close>. If the call fails at the transport
  level (\<^verbatim>\<open>fetch\<close> rejects, or reading the body of the response rejects), the error reaches
  the \<^verbatim>\<open>catch\<close> of line 74 and the handler answers with status 500 and
  \<^verbatim>\<open>{"success":false,"message":"An unexpected error occurred."}\<close> instead.
\<close>

theorem delivery_failure_500:
  assumes "formData request = Inr entries"
    and "valid_submission (fromEntries entries) name email subj message"
    and "apiPayload env (fromEntries entries) = Inr p"
    and "apiRequest env p = Inr req"
  shows \<open>(fetch req = Inr r \<and> \<not> ok r \<and> body_text r = Inr errorBody \<longrightarrow>
      onRequestPost fetch request env =
        ([Fetch req,
          ConsoleError [Str (js ''forwardemail.net API Error: '' @ dec (upstream_status r) @
            js '' '' @ statusText r)],
          ConsoleError [Str (js ''forwardemail.net Response Body: '' @ errorBody)]],
         \<lparr>response_body = js ''{"success":false,"message":"Failed to send email."}'',
          status = 500, headers = [(js ''Content-Type'', js ''application/json'')]\<rparr>)) \<and>
    (fetch req = Inl e \<longrightarrow>
      onRequestPost fetch request env =
        ([Fetch req, ConsoleError [Str (js ''Worker Error:''), Err e]],
         \<lparr>response_body = js ''{"success":false,"message":"An unexpected error occurred."}'',
          status = 500, headers = [(js ''Content-Type'', js ''application/json'')]\<rparr>)) \<and>
    (fetch req = Inr r \<and> \<not> ok r \<and> body_text r = Inl e \<longrightarrow>
      onRequestPost fetch request env =
        ([Fetch req,
          ConsoleError [Str (js ''forwardemail.net API Error: '' @ dec (upstream_status r) @
            js '' '' @ statusText r)],
          ConsoleError [Str (js ''Worker Error:''), Err e]],
         \<lparr>response_body = js ''{"success":false,"message":"An unexpected error occurred."}'',
          status = 500, headers = [(js ''Content-Type'', js ''application/json'')]\<rparr>))\<close>
  using try_block_sent [OF assms(1) valid_truthy [OF assms(2)] assms(3,4), of fetch]
  by (simp add: onRequestPost_def bodies)

theorem delivery_failure_500_witness:
  \<open>\<exists>p req. formData \<lparr>formData = Inr jane\<rparr> = Inr jane \<and>
     valid_submission (fromEntries jane) (js ''Jane'') (js ''jane@x.com'') (js ''Hello'')
       (js ''Hi'' @ [LF] @ js ''There'') \<and>
     apiPayload site_env (fromEntries jane) = Inr p \<and>
     apiRequest site_env p = Inr req \<and>
     unauthorized req = Inr \<lparr>upstream_status = 401, statusText = js ''Unauthorized'',
       body_text = Inr (js ''denied'')\<rparr> \<and>
     \<not> ok \<lparr>upstream_status = 401, statusText = js ''Unauthorized'',
       body_text = Inr (js ''denied'')\<rparr> \<and>
     onRequestPost unauthorized \<lparr>formData = Inr jane\<rparr> site_env =
       ([Fetch req,
         ConsoleError [Str (js ''forwardemail.net API Error: 401 Unauthorized'')],
         ConsoleError [Str (js ''forwardemail.net Response Body: denied'')]],
        \<lparr>response_body = js ''{"success":false,"message":"Failed to send email."}'',
         status = 500, headers = [(js ''Content-Type'', js ''application/json'')]\<rparr>)\<close>
proof -
  obtain p where p: "apiPayload site_env (fromEntries jane) = Inr p"
    using valid_payload [OF jane_valid] by blast
  obtain req where req: "apiRequest site_env p = Inr req"
    using apiRequest_Latin1 [OF site_env_Latin1] by blast
  have d: "dec 401 = js ''401''"
    by (simp add: dec.simps js_def)
  have \<open>onRequestPost unauthorized \<lparr>formData = Inr jane\<rparr> site_env =
       ([Fetch req,
         ConsoleError [Str (js ''forwardemail.net API Error: 401 Unauthorized'')],
         ConsoleError [Str (js ''forwardemail.net Response Body: denied'')]],
        \<lparr>response_body = js ''{"success":false,"message":"Failed to send email."}'',
         status = 500, headers = [(js ''Content-Type'', js ''application/json'')]\<rparr>)\<close>
    using delivery_failure_500 [where fetch = unauthorized and request = "\<lparr>formData = Inr jane\<rparr>"
        and r = "\<lparr>upstream_status = 401, statusText = js ''Unauthorized'',
          body_text = Inr (js ''denied'')\<rparr>" and errorBody = "js ''denied''",
        OF _ jane_valid p req]
    by (simp add: unauthorized_def ok_def d) (simp add: js_def)
  with p req jane_valid show ?thesis
    by (auto simp: unauthorized_def ok_def)
qed

text \<open>
  Claim C2 as stated fails. The submission of the scenario is valid and the request is sent.
  When the delivery API cannot be reached, and when it answers 502 with a body that cannot be
  read, the response is the unexpected-error response, whose body is not the
  delivery-failure body.
\<close>

theorem transport_failure_counterexample:
  \<open>valid_submission (fromEntries jane) (js ''Jane'') (js ''jane@x.com'') (js ''Hello'')
       (js ''Hi'' @ [LF] @ js ''There'') \<and>
   (\<exists>req. onRequestPost unreachable \<lparr>formData = Inr jane\<rparr> site_env =
      ([Fetch req, ConsoleError [Str (js ''Worker Error:''), Err (Rejected (js ''network error''))]],
       \<lparr>response_body = js ''{"success":false,"message":"An unexpected error occurred."}'',
        status = 500, headers = [(js ''Content-Type'', js ''application/json'')]\<rparr>)) \<and>
   (\<exists>req. onRequestPost truncated \<lparr>formData = Inr jane\<rparr> site_env =
      ([Fetch req, ConsoleError [Str (js ''forwardemail.net API Error: 502 Bad Gateway'')],
        ConsoleError [Str (js ''Worker Error:''), Err (Rejected (js ''connection reset''))]],
       \<lparr>response_body = js ''{"success":false,"message":"An unexpected error occurred."}'',
        status = 500, headers = [(js ''Content-Type'', js ''application/json'')]\<rparr>)) \<and>
   js ''{"success":false,"message":"An unexpected error occurred."}'' \<noteq>
   js ''{"success":false,"message":"Failed to send email."}''\<close>
proof -
  obtain p req where
    t: "try_block unreachable \<lparr>formData = Inr jane\<rparr> site_env =
          ([Fetch req], Inl (Rejected (js ''network error'')))"
    by (rule jane_sent [of unreachable]) (simp add: unreachable_def)
  have d: "dec 502 = js ''502''"
    by (simp add: dec.simps js_def)
  obtain p' req' where
    t': "try_block truncated \<lparr>formData = Inr jane\<rparr> site_env =
          ([Fetch req', ConsoleError [Str (js ''forwardemail.net API Error: 502 Bad Gateway'')]],
           Inl (Rejected (js ''connection reset'')))"
    by (rule jane_sent [of truncated]) (simp add: truncated_def ok_def d, simp add: js_def)
  have \<open>\<exists>req. onRequestPost unreachable \<lparr>formData = Inr jane\<rparr> site_env =
      ([Fetch req, ConsoleError [Str (js ''Worker Error:''), Err (Rejected (js ''network error''))]],
       \<lparr>response_body = js ''{"success":false,"message":"An unexpected error occurred."}'',
        status = 500, headers = [(js ''Content-Type'', js ''application/json'')]\<rparr>)\<close>
    using caught [OF t] by auto
  moreover have \<open>\<exists>req. onRequestPost truncated \<lparr>formData = Inr jane\<rparr> site_env =
      ([Fetch req, ConsoleError [Str (js ''forwardemail.net API Error: 502 Bad Gateway'')],
        ConsoleError [Str (js ''Worker Error:''), Err (Rejected (js ''connection reset''))]],
       \<lparr>response_body = js ''{"success":false,"message":"An unexpected error occurred."}'',
        status = 500, headers = [(js ''Content-Type'', js ''application/json'')]\<rparr>)\<close>
    using caught [OF t'] by auto
  moreover have \<open>js ''{"success":false,"message":"An unexpected error occurred."}'' \<noteq>
      js ''{"success":false,"message":"Failed to send email."}''\<close>
    by (simp add: js_def)
  ultimately show ?thesis
    using jane_valid by blast
qed

text \<open>
  Claim C5. For a valid submission whose outbound request \<open>req\<close> is built, if the call
  completes with a status in 200 to 299, the handler makes that one call, logs nothing, and
  answers with status 200 and the plain text \<^verbatim>\<open>OK\<close> as body.
\<close>

theorem success_OK_200:
  assumes "formData request = Inr entries"
    and "valid_submission (fromEntries entries) name email subj message"
    and "apiPayload env (fromEntries entries) = Inr p"
    and "apiRequest env p = Inr req"
    and "fetch req = Inr apiResponse"
    and "ok apiResponse"
  shows "onRequestPost fetch request env =
    ([Fetch req], \<lparr>response_body = js ''OK'', status = 200, headers = []\<rparr>)"
  using assms(5,6)
    try_block_sent [OF assms(1) valid_truthy [OF assms(2)] assms(3,4), of fetch]
  by (simp add: onRequestPost_def)

theorem success_OK_200_witness:
  "\<exists>p req. formData \<lparr>formData = Inr jane\<rparr> = Inr jane \<and>
     valid_submission (fromEntries jane) (js ''Jane'') (js ''jane@x.com'') (js ''Hello'')
       (js ''Hi'' @ [LF] @ js ''There'') \<and>
     apiPayload site_env (fromEntries jane) = Inr p \<and>
     apiRequest site_env p = Inr req \<and>
     accepts req = Inr \<lparr>upstream_status = 200, statusText = js ''OK'', body_text = Inr []\<rparr> \<and>
     ok \<lparr>upstream_status = 200, statusText = js ''OK'', body_text = Inr []\<rparr> \<and>
     onRequestPost accepts \<lparr>formData = Inr jane\<rparr> site_env =
       ([Fetch req], \<lparr>response_body = js ''OK'', status = 200, headers = []\<rparr>)"
proof -
  obtain p where p: "apiPayload site_env (fromEntries jane) = Inr p"
    using valid_payload [OF jane_valid] by blast
  obtain req where req: "apiRequest site_env p = Inr req"
    using apiRequest_Latin1 [OF site_env_Latin1] by blast
  have f: "accepts req = Inr \<lparr>upstream_status = 200, statusText = js ''OK'', body_text = Inr []\<rparr>"
    by (simp add: accepts_def)
  have o: "ok \<lparr>upstream_status = 200, statusText = js ''OK'', body_text = Inr []\<rparr>"
    by (simp add: ok_def)
  have "onRequestPost accepts \<lparr>formData = Inr jane\<rparr> site_env =
       ([Fetch req], \<lparr>response_body = js ''OK'', status = 200, headers = []\<rparr>)"
    using success_OK_200 [where fetch = accepts and request = "\<lparr>formData = Inr jane\<rparr>",
        OF _ jane_valid p req f o] by simp
  with p req f o jane_valid show ?thesis by auto
qed

section \<open>The payload\<close>

text \<open>
  Claim C3. For a valid submission the payload is built, and in it \<open>to\<close> is the one-element
  list of the configured recipient, \<open>from\<close> is the submitted name in double quotes followed
  by the configured sender address in angle brackets, \<open>replyTo\<close> is the submitted name in
  double quotes followed by the submitted email address in angle brackets, and \<open>subject\<close> is
  \<^verbatim>\<open>New Contact Form Submission: \<close> followed by the submitted subject. Every outbound call
  the invocation makes carries the serialisation of this payload as its body.
\<close>

theorem payload_addressing:
  assumes "formData request = Inr entries"
    and "valid_submission (fromEntries entries) name email subj message"
  shows \<open>\<exists>p. apiPayload env (fromEntries entries) = Inr p \<and>
    to p = [TO_EMAIL env] \<and>
    from' p = js ''"'' @ name @ js ''" <'' @ FORWARDEMAIL_USERNAME env @ js ''>'' \<and>
    replyTo p = js ''"'' @ name @ js ''" <'' @ email @ js ''>'' \<and>
    subject p = js ''New Contact Form Submission: '' @ subj \<and>
    (\<forall>req. Fetch req \<in> set (fst (onRequestPost fetch request env)) \<longrightarrow>
       request_body req = stringify (payload_json p))\<close>
proof -
  from valid_payload_fields [OF assms(2), of env] obtain p where
    p: "apiPayload env (fromEntries entries) = Inr p" and
    f: \<open>to p = [TO_EMAIL env]\<close>
      \<open>from' p = js ''"'' @ name @ js ''" <'' @ FORWARDEMAIL_USERNAME env @ js ''>''\<close>
      \<open>replyTo p = js ''"'' @ name @ js ''" <'' @ email @ js ''>''\<close>
      \<open>subject p = js ''New Contact Form Submission: '' @ subj\<close>
    by blast
  have "request_body req = stringify (payload_json p)"
    if "Fetch req \<in> set (fst (onRequestPost fetch request env))" for req
    using fetched_request [OF assms(1) valid_truthy [OF assms(2)] p that]
    by (rule apiRequest_body)
  with p f show ?thesis by blast
qed

theorem payload_addressing_witness:
  \<open>\<exists>p. formData \<lparr>formData = Inr jane\<rparr> = Inr jane \<and>
     valid_submission (fromEntries jane) (js ''Jane'') (js ''jane@x.com'') (js ''Hello'')
       (js ''Hi'' @ [LF] @ js ''There'') \<and>
     apiPayload site_env (fromEntries jane) = Inr p \<and>
     to p = [js ''inbox@site.org''] \<and>
     from' p = js ''"Jane" <me@site.org>'' \<and>
     replyTo p = js ''"Jane" <jane@x.com>'' \<and>
     subject p = js ''New Contact Form Submission: Hello''\<close>
  using payload_addressing [where request = "\<lparr>formData = Inr jane\<rparr>" and env = site_env
      and fetch = accepts, OF _ jane_valid] jane_valid
  by (auto simp: site_env_def js_def)

text \<open>
  Claim C4, as amended. For a valid submission the rendered message is the message with each
  newline replaced by \<^verbatim>\<open><br>\<close>: it is part of \<open>html\<close>, no newline is left in it, and a newline
  between two parts of the message becomes one marker between the two rendered parts. A
  message with N newlines yields an \<open>html\<close> in which the number of markers is N plus the number
  of times the text \<^verbatim>\<open><br>\<close> already occurs in the submitted name, email and message; it is
  exactly N when none of the three contains that text.
\<close>

theorem line_break_markers:
  assumes "valid_submission body name email subj message"
  shows \<open>\<exists>p. apiPayload env body = Inr p \<and>
    occurrences (js ''<br>'') (html p) =
      count_list message LF + occurrences (js ''<br>'') name + occurrences (js ''<br>'') email +
      occurrences (js ''<br>'') message \<and>
    sublist (replace_newlines message) (html p) \<and>
    LF \<notin> set (replace_newlines message) \<and>
    (\<forall>xs ys. message = xs @ LF # ys \<longrightarrow>
       replace_newlines message = replace_newlines xs @ js ''<br>'' @ replace_newlines ys)\<close>
proof -
  let ?before = "[LF] @ js ''        <p>You have received a new message from your website contact form.</p>'' @
       [LF] @ js ''        <hr>'' @
       [LF] @ js ''        <p><b>Name:</b> '' @ name @
       js ''</p>'' @
       [LF] @ js ''        <p><b>Email:</b> '' @ email @
       js ''</p>'' @
       [LF] @ js ''        <hr>'' @
       [LF] @ js ''        <p><b>Message:</b></p>'' @
       [LF] @ js ''        <p>''"
  let ?after = "js ''</p>'' @ [LF] @ js ''      ''"
  from valid_payload_fields [OF assms, of env] obtain p where
    p: "apiPayload env body = Inr p" and
    h: "html p = ?before @ replace_newlines message @ ?after"
    by auto
  have m: "sublist (replace_newlines message) (html p)"
    unfolding h by (rule sublist_appendI)
  have r: "replace_newlines message = replace_newlines xs @ js ''<br>'' @ replace_newlines ys"
    if "message = xs @ LF # ys" for xs ys
    using that by (simp add: replace_newlines_append)
  show ?thesis
    using p html_occurrences [OF assms p] m no_newline_left [of message] r by blast
qed

theorem line_break_markers_witness:
  \<open>\<exists>p. valid_submission (fromEntries jane) (js ''Jane'') (js ''jane@x.com'') (js ''Hello'')
       (js ''Hi'' @ [LF] @ js ''There'') \<and>
     apiPayload site_env (fromEntries jane) = Inr p \<and>
     count_list (js ''Hi'' @ [LF] @ js ''There'') LF = 1 \<and>
     occurrences (js ''<br>'') (html p) = 1 \<and>
     sublist (js ''Hi<br>There'') (html p)\<close>
proof -
  have c: "count_list (js ''Hi'' @ [LF] @ js ''There'') LF = 1"
    by (simp add: js_def LF_def)
  have o: "occurrences (js ''<br>'') (js ''Jane'') = 0" "occurrences (js ''<br>'') (js ''jane@x.com'') = 0"
    "occurrences (js ''<br>'') (js ''Hi'' @ [LF] @ js ''There'') = 0"
    by (simp_all add: js_def LF_def)
  have r: "replace_newlines (js ''Hi'' @ [LF] @ js ''There'') = js ''Hi<br>There''"
    by (simp add: js_def LF_def)
  show ?thesis
    using line_break_markers [OF jane_valid, of site_env] jane_valid c o r by auto
qed

text \<open>
  Claim C4 as stated fails for a message that already contains the text \<^verbatim>\<open><br>\<close>: the
  message \<^verbatim>\<open>one<br>two\<close> has no newline, and the \<open>html\<close> built from it contains one marker.
\<close>

theorem markup_message_counterexample:
  \<open>valid_submission (fromEntries markup) (js ''Jane'') (js ''jane@x.com'') (js ''Hello'')
     (js ''one<br>two'') \<and>
   count_list (js ''one<br>two'') LF = 0 \<and>
   (\<exists>p. apiPayload site_env (fromEntries markup) = Inr p \<and>
        occurrences (js ''<br>'') (html p) = 1)\<close>
proof -
  obtain p where p: "apiPayload site_env (fromEntries markup) = Inr p"
    using valid_payload [OF markup_valid] by blast
  have "occurrences (js ''<br>'') (html p) = 1"
    using html_occurrences [OF markup_valid p] by (simp add: js_def LF_def)
  moreover have "count_list (js ''one<br>two'') LF = 0"
    by (simp add: js_def LF_def)
  ultimately show ?thesis
    using markup_valid p by blast
qed

text \<open>
  Claim C9. For a valid submission, \<open>html\<close> is the fixed template with the submitted name and
  email inserted as they are and the message inserted after the replacement of its newlines,
  which is the only rewriting: a message without newlines is inserted as it is. So the name,
  the email and every newline-free part of the message, markup included, occur unchanged in
  \<open>html\<close>.
\<close>

theorem markup_verbatim:
  assumes "valid_submission body name email subj message"
  shows \<open>\<exists>p. apiPayload env body = Inr p \<and>
    html p =
      ([LF] @ js ''        <p>You have received a new message from your website contact form.</p>'' @
       [LF] @ js ''        <hr>'' @
       [LF] @ js ''        <p><b>Name:</b> '') @ name @
      (js ''</p>'' @
       [LF] @ js ''        <p><b>Email:</b> '') @ email @
      (js ''</p>'' @
       [LF] @ js ''        <hr>'' @
       [LF] @ js ''        <p><b>Message:</b></p>'' @
       [LF] @ js ''        <p>'') @ replace_newlines message @
      (js ''</p>'' @
       [LF] @ js ''      '') \<and>
    sublist name (html p) \<and> sublist email (html p) \<and>
    (\<forall>chunk. sublist chunk message \<and> LF \<notin> set chunk \<longrightarrow> sublist chunk (html p)) \<and>
    (LF \<notin> set message \<longrightarrow> replace_newlines message = message)\<close>
proof -
  let ?A = "[LF] @ js ''        <p>You have received a new message from your website contact form.</p>'' @
       [LF] @ js ''        <hr>'' @
       [LF] @ js ''        <p><b>Name:</b> ''"
  let ?B = "js ''</p>'' @ [LF] @ js ''        <p><b>Email:</b> ''"
  let ?C = "js ''</p>'' @
       [LF] @ js ''        <hr>'' @
       [LF] @ js ''        <p><b>Message:</b></p>'' @
       [LF] @ js ''        <p>''"
  let ?D = "js ''</p>'' @ [LF] @ js ''      ''"
  from valid_payload_fields [OF assms, of env] obtain p where
    p: "apiPayload env body = Inr p" and
    h: "html p = ?A @ name @ ?B @ email @ ?C @ replace_newlines message @ ?D"
    by blast
  have n: "sublist name (html p)"
    unfolding h by (rule sublist_appendI)
  have "html p = (?A @ name @ ?B) @ email @ (?C @ replace_newlines message @ ?D)"
    unfolding h by simp
  then have e: "sublist email (html p)"
    by (metis sublist_appendI)
  have "html p = (?A @ name @ ?B @ email @ ?C) @ replace_newlines message @ ?D"
    unfolding h by simp
  then have m: "sublist (replace_newlines message) (html p)"
    by (metis sublist_appendI)
  have c: "sublist chunk (html p)" if "sublist chunk message \<and> LF \<notin> set chunk" for chunk
    using replace_newlines_sublist [of chunk message] that m
    by (blast intro: sublist_order.order_trans)
  show ?thesis
    using p h n e c replace_newlines_id [of message] by blast
qed

theorem markup_verbatim_witness:
  \<open>\<exists>p. valid_submission (fromEntries markup) (js ''Jane'') (js ''jane@x.com'') (js ''Hello'')
       (js ''one<br>two'') \<and>
     apiPayload site_env (fromEntries markup) = Inr p \<and>
     sublist (js ''<br>'') (js ''one<br>two'') \<and> LF \<notin> set (js ''<br>'') \<and>
     sublist (js ''<br>'') (html p) \<and>
     LF \<notin> set (js ''one<br>two'') \<and> replace_newlines (js ''one<br>two'') = js ''one<br>two''\<close>
proof -
  have s: "sublist (js ''<br>'') (js ''one<br>two'')"
    using sublist_appendI [of "js ''<br>''" "js ''one''" "js ''two''"] by (simp add: js_def)
  have n: "LF \<notin> set (js ''<br>'')" "LF \<notin> set (js ''one<br>two'')"
    by (simp_all add: js_def LF_def)
  show ?thesis
    using markup_verbatim [OF markup_valid, of site_env] s n markup_valid by blast
qed

section \<open>Errors\<close>

text \<open>
  Claim C6. The handler returns a response for every request, configuration and behaviour of
  the platform. Whenever an error is raised inside the \<^verbatim>\<open>try\<close> block, after any effects, the
  handler logs it and answers with status 500 and the JSON body
  \<^verbatim>\<open>{"success":false,"message":"An unexpected error occurred."}\<close>; in particular it does so
  when the body cannot be parsed as form data. The response is always one of the three JSON
  failure responses or the plain \<^verbatim>\<open>OK\<close> response.
\<close>

theorem no_exception_escapes:
  \<open>(\<forall>effects err. try_block fetch request env = (effects, Inl err) \<longrightarrow>
      onRequestPost fetch request env =
        (effects @ [ConsoleError [Str (js ''Worker Error:''), Err err]],
         \<lparr>response_body = js ''{"success":false,"message":"An unexpected error occurred."}'',
          status = 500, headers = [(js ''Content-Type'', js ''application/json'')]\<rparr>)) \<and>
   (\<forall>err. formData request = Inl err \<longrightarrow>
      onRequestPost fetch request env =
        ([ConsoleError [Str (js ''Worker Error:''), Err err]],
         \<lparr>response_body = js ''{"success":false,"message":"An unexpected error occurred."}'',
          status = 500, headers = [(js ''Content-Type'', js ''application/json'')]\<rparr>)) \<and>
   snd (onRequestPost fetch request env) \<in>
    {\<lparr>response_body = js ''{"success":false,"message":"Missing required fields."}'',
      status = 400, headers = [(js ''Content-Type'', js ''application/json'')]\<rparr>,
     \<lparr>response_body = js ''{"success":false,"message":"Failed to send email."}'',
      status = 500, headers = [(js ''Content-Type'', js ''application/json'')]\<rparr>,
     \<lparr>response_body = js ''{"success":false,"message":"An unexpected error occurred."}'',
      status = 500, headers = [(js ''Content-Type'', js ''application/json'')]\<rparr>,
     \<lparr>response_body = js ''OK'', status = 200, headers = []\<rparr>}\<close>
proof (intro conjI allI impI)
  fix effects err
  assume "try_block fetch request env = (effects, Inl err)"
  then show \<open>onRequestPost fetch request env =
        (effects @ [ConsoleError [Str (js ''Worker Error:''), Err err]],
         \<lparr>response_body = js ''{"success":false,"message":"An unexpected error occurred."}'',
          status = 500, headers = [(js ''Content-Type'', js ''application/json'')]\<rparr>)\<close>
    by (rule caught)
next
  fix err
  assume "formData request = Inl err"
  then have "try_block fetch request env = ([], Inl err)"
    by (simp add: try_block_def)
  then show \<open>onRequestPost fetch request env =
        ([ConsoleError [Str (js ''Worker Error:''), Err err]],
         \<lparr>response_body = js ''{"success":false,"message":"An unexpected error occurred."}'',
          status = 500, headers = [(js ''Content-Type'', js ''application/json'')]\<rparr>)\<close>
    using caught [of fetch request env "[]" err] by simp
next
  show \<open>snd (onRequestPost fetch request env) \<in>
    {\<lparr>response_body = js ''{"success":false,"message":"Missing required fields."}'',
      status = 400, headers = [(js ''Content-Type'', js ''application/json'')]\<rparr>,
     \<lparr>response_body = js ''{"success":false,"message":"Failed to send email."}'',
      status = 500, headers = [(js ''Content-Type'', js ''application/json'')]\<rparr>,
     \<lparr>response_body = js ''{"success":false,"message":"An unexpected error occurred."}'',
      status = 500, headers = [(js ''Content-Type'', js ''application/json'')]\<rparr>,
     \<lparr>response_body = js ''OK'', status = 200, headers = []\<rparr>}\<close>
    by (rule response_cases)
qed

theorem no_exception_escapes_witness:
  \<open>formData unparseable = Inl (Rejected (js ''body is not form data'')) \<and>
   onRequestPost accepts unparseable site_env =
     ([ConsoleError [Str (js ''Worker Error:''), Err (Rejected (js ''body is not form data''))]],
      \<lparr>response_body = js ''{"success":false,"message":"An unexpected error occurred."}'',
       status = 500, headers = [(js ''Content-Type'', js ''application/json'')]\<rparr>)\<close>
  using no_exception_escapes [of accepts unparseable site_env]
  by (simp add: unparseable_def)

section \<open>Form fields that repeat\<close>

text \<open>
  Claim C7. When a field name occurs several times among the parsed entries, the value the
  handler reads for it is the value of its last occurrence, and the whole invocation (effects
  and response, so validation and payload alike) is the same as if the earlier occurrences of
  that name were absent.
\<close>

theorem last_value_wins:
  "(k \<notin> fst ` set es' \<longrightarrow> fromEntries (es @ (k, v) # es') k = Some v) \<and>
   onRequestPost fetch \<lparr>formData = Inr (es @ (k, v) # es')\<rparr> env =
   onRequestPost fetch \<lparr>formData = Inr (filter (\<lambda>e. fst e \<noteq> k) es @ (k, v) # es')\<rparr> env"
  using fromEntries_last [of k es' es v] onRequestPost_fromEntries [OF fromEntries_drop_earlier]
  by blast

theorem last_value_wins_witness:
  "js ''name'' \<notin> fst ` set jane_rest \<and>
   fromEntries ([(js ''name'', Text (js ''Janet''))] @ (js ''name'', Text (js ''Jane'')) # jane_rest)
     (js ''name'') = Some (Text (js ''Jane'')) \<and>
   onRequestPost accepts
     \<lparr>formData = Inr ([(js ''name'', Text (js ''Janet''))] @ (js ''name'', Text (js ''Jane'')) #
        jane_rest)\<rparr> site_env =
   onRequestPost accepts \<lparr>formData = Inr ((js ''name'', Text (js ''Jane'')) # jane_rest)\<rparr> site_env"
proof -
  have n: "js ''name'' \<notin> fst ` set jane_rest"
    by (simp add: jane_rest_def js_def)
  show ?thesis
    using n last_value_wins [of "js ''name''" jane_rest "[(js ''name'', Text (js ''Janet''))]"
        "Text (js ''Jane'')" accepts site_env]
    by simp
qed

section \<open>What the caller can see\<close>

text \<open>
  Claim C8. Any two invocations that take the delivery-failure path return the same response,
  the one with status 500 and body \<^verbatim>\<open>{"success":false,"message":"Failed to send email."}\<close>,
  whatever the status, status text and body of the upstream responses were. The body of every
  response the handler produces is one of four constant texts, so no upstream status, upstream
  body or error detail is part of it.
\<close>

theorem delivery_failure_noninterference:
  assumes "delivery_failure_path fetch1 request1 env1"
    and "delivery_failure_path fetch2 request2 env2"
  shows \<open>snd (onRequestPost fetch1 request1 env1) = snd (onRequestPost fetch2 request2 env2) \<and>
    snd (onRequestPost fetch1 request1 env1) =
      \<lparr>response_body = js ''{"success":false,"message":"Failed to send email."}'',
       status = 500, headers = [(js ''Content-Type'', js ''application/json'')]\<rparr> \<and>
    response_body (snd (onRequestPost fetch request env)) \<in>
      {js ''{"success":false,"message":"Missing required fields."}'',
       js ''{"success":false,"message":"Failed to send email."}'',
       js ''{"success":false,"message":"An unexpected error occurred."}'',
       js ''OK''}\<close>
proof -
  have r: \<open>snd (onRequestPost f rq e) =
      \<lparr>response_body = js ''{"success":false,"message":"Failed to send email."}'',
       status = 500, headers = [(js ''Content-Type'', js ''application/json'')]\<rparr>\<close>
    if "delivery_failure_path f rq e" for f rq e
    using delivery_failure_run [OF that] by auto
  have b: \<open>response_body (snd (onRequestPost fetch request env)) \<in>
      {js ''{"success":false,"message":"Missing required fields."}'',
       js ''{"success":false,"message":"Failed to send email."}'',
       js ''{"success":false,"message":"An unexpected error occurred."}'',
       js ''OK''}\<close>
    using response_cases [of fetch request env] by auto
  show ?thesis
    using r [OF assms(1)] r [OF assms(2)] b by simp
qed

theorem delivery_failure_noninterference_witness:
  \<open>delivery_failure_path unauthorized \<lparr>formData = Inr jane\<rparr> site_env \<and>
   delivery_failure_path maintenance \<lparr>formData = Inr jane\<rparr> site_env \<and>
   snd (onRequestPost unauthorized \<lparr>formData = Inr jane\<rparr> site_env) =
   snd (onRequestPost maintenance \<lparr>formData = Inr jane\<rparr> site_env) \<and>
   snd (onRequestPost unauthorized \<lparr>formData = Inr jane\<rparr> site_env) =
      \<lparr>response_body = js ''{"success":false,"message":"Failed to send email."}'',
       status = 500, headers = [(js ''Content-Type'', js ''application/json'')]\<rparr>\<close>
  using jane_failure_path [of unauthorized] jane_failure_path [of maintenance]
    delivery_failure_noninterference [where fetch = accepts and request = unparseable
      and env = site_env, OF jane_failure_path [of unauthorized] jane_failure_path [of maintenance]]
  by blast

subsection \<open>The headers of the four responses\<close>

lemma json_header_list:
  "header_list \<lparr>response_body = b, status = n,
      headers = [(js ''Content-Type'', js ''application/json'')]\<rparr> =
   [(js ''Content-Type'', js ''application/json'')]"
  by (simp add: header_list_def same_header_name_def)

lemma plain_header_list:
  "header_list \<lparr>response_body = b, status = n, headers = []\<rparr> =
   [(js ''Content-Type'', js ''text/plain;charset=UTF-8'')]"
  by (simp add: header_list_def)

lemma get_content_type:
  "get_header [(js ''Content-Type'', v)] (js ''Content-Type'') = Some v"
  by (simp add: get_header_def same_header_name_def)

text \<open>
  Claim C10, as amended. Each of the three failure responses is constructed with the single
  header \<^verbatim>\<open>Content-Type: application/json\<close> and carries exactly that header. The success
  response \<^verbatim>\<open>OK\<close> is constructed without any header, so the only header it carries is the one
  the constructor derives from its string body, \<^verbatim>\<open>Content-Type: text/plain;charset=UTF-8\<close>.
  The failure branches and the success branch differ in the value of \<^verbatim>\<open>Content-Type\<close>, not
  just in body and status.
\<close>

theorem response_content_types:
  \<open>(snd (onRequestPost fetch request env) = \<lparr>response_body = js ''OK'', status = 200, headers = []\<rparr> \<and>
    header_list (snd (onRequestPost fetch request env)) =
      [(js ''Content-Type'', js ''text/plain;charset=UTF-8'')] \<or>
    headers (snd (onRequestPost fetch request env)) = [(js ''Content-Type'', js ''application/json'')] \<and>
    header_list (snd (onRequestPost fetch request env)) =
      [(js ''Content-Type'', js ''application/json'')] \<and>
    (snd (onRequestPost fetch request env) =
       \<lparr>response_body = js ''{"success":false,"message":"Missing required fields."}'',
        status = 400, headers = [(js ''Content-Type'', js ''application/json'')]\<rparr> \<or>
     snd (onRequestPost fetch request env) =
       \<lparr>response_body = js ''{"success":false,"message":"Failed to send email."}'',
        status = 500, headers = [(js ''Content-Type'', js ''application/json'')]\<rparr> \<or>
     snd (onRequestPost fetch request env) =
       \<lparr>response_body = js ''{"success":false,"message":"An unexpected error occurred."}'',
        status = 500, headers = [(js ''Content-Type'', js ''application/json'')]\<rparr>)) \<and>
   (status (snd (onRequestPost fetch request env)) = 200 \<longrightarrow>
      headers (snd (onRequestPost fetch request env)) = [] \<and>
      get_header (header_list (snd (onRequestPost fetch request env))) (js ''Content-Type'') =
        Some (js ''text/plain;charset=UTF-8'')) \<and>
   (status (snd (onRequestPost fetch request env)) \<noteq> 200 \<longrightarrow>
      headers (snd (onRequestPost fetch request env)) =
        [(js ''Content-Type'', js ''application/json'')] \<and>
      get_header (header_list (snd (onRequestPost fetch request env))) (js ''Content-Type'') =
        Some (js ''application/json''))\<close>
  using response_cases [of fetch request env]
  by (auto simp: json_header_list plain_header_list get_content_type)

theorem response_content_types_witness:
  \<open>status (snd (onRequestPost accepts \<lparr>formData = Inr jane\<rparr> site_env)) = 200 \<and>
   headers (snd (onRequestPost accepts \<lparr>formData = Inr jane\<rparr> site_env)) = [] \<and>
   get_header (header_list (snd (onRequestPost accepts \<lparr>formData = Inr jane\<rparr> site_env)))
     (js ''Content-Type'') = Some (js ''text/plain;charset=UTF-8'') \<and>
   status (snd (onRequestPost accepts unparseable site_env)) \<noteq> 200 \<and>
   headers (snd (onRequestPost accepts unparseable site_env)) =
     [(js ''Content-Type'', js ''application/json'')] \<and>
   get_header (header_list (snd (onRequestPost accepts unparseable site_env)))
     (js ''Content-Type'') = Some (js ''application/json'')\<close>
proof -
  obtain p req where
    "try_block accepts \<lparr>formData = Inr jane\<rparr> site_env =
       ([Fetch req], Inr \<lparr>response_body = js ''OK'', status = 200, headers = []\<rparr>)"
    by (rule jane_sent [of accepts]) (simp add: accepts_def ok_def)
  then have s: "status (snd (onRequestPost accepts \<lparr>formData = Inr jane\<rparr> site_env)) = 200"
    by (simp add: onRequestPost_def)
  have "try_block accepts unparseable site_env = ([], Inl (Rejected (js ''body is not form data'')))"
    by (simp add: try_block_def unparseable_def)
  then have u: "status (snd (onRequestPost accepts unparseable site_env)) \<noteq> 200"
    by (simp add: onRequestPost_def)
  show ?thesis
    using s u response_content_types [of accepts "\<lparr>formData = Inr jane\<rparr>" site_env]
      response_content_types [of accepts unparseable site_env]
    by simp
qed

text \<open>
  Claim C10 as stated fails in its second half. The success response of the scenario is
  constructed from the body \<^verbatim>\<open>OK\<close> and the status alone, and the response so constructed has
  a \<^verbatim>\<open>Content-Type\<close> header, with the value \<^verbatim>\<open>text/plain;charset=UTF-8\<close>.
\<close>

theorem success_content_type_counterexample:
  \<open>snd (onRequestPost accepts \<lparr>formData = Inr jane\<rparr> site_env) =
     \<lparr>response_body = js ''OK'', status = 200, headers = []\<rparr> \<and>
   header_list (snd (onRequestPost accepts \<lparr>formData = Inr jane\<rparr> site_env)) =
     [(js ''Content-Type'', js ''text/plain;charset=UTF-8'')] \<and>
   get_header (header_list (snd (onRequestPost accepts \<lparr>formData = Inr jane\<rparr> site_env)))
     (js ''Content-Type'') = Some (js ''text/plain;charset=UTF-8'') \<and>
   get_header (header_list (snd (onRequestPost accepts \<lparr>formData = Inr jane\<rparr> site_env)))
     (js ''Content-Type'') \<noteq> None\<close>
proof -
  obtain p req where
    "try_block accepts \<lparr>formData = Inr jane\<rparr> site_env =
       ([Fetch req], Inr \<lparr>response_body = js ''OK'', status = 200, headers = []\<rparr>)"
    by (rule jane_sent [of accepts]) (simp add: accepts_def ok_def)
  then have "snd (onRequestPost accepts \<lparr>formData = Inr jane\<rparr> site_env) =
     \<lparr>response_body = js ''OK'', status = 200, headers = []\<rparr>"
    by (simp add: onRequestPost_def)
  then show ?thesis
    by (simp add: plain_header_list get_content_type)
qed

end
